theory Spec2Isabelle
  imports Main "HOL-Library.AList" "HOL-Library.Multiset"
begin

section \<open>KernelComm: the frontend side of the comm with a kernel\<close>

text \<open>
  A shallow embedding of \<^verbatim>\<open>spyder/plugins/ipythonconsole/comms/kernelcomm.py\<close>.
  The class \<^verbatim>\<open>KernelComm\<close> is a record holding the attributes its methods read and
  write; a method is a function from the object before the call to an outcome and the
  object after it. An exception is the outcome \<open>Raised\<close>. What a method does to the
  outside (sockets and channels it constructs, signals it emits, requests, messages and
  log records it issues) is appended, in order, to the field \<open>effects\<close>. A log record is
  the call of the logger with its message and its arguments.

  The methods inherited from \<^verbatim>\<open>CommBase\<close> (package spyder_kernels) and the classes of
  jupyter_client, zmq and Qt are not part of the file. Where a method calls
  \<^verbatim>\<open>super()\<close>, the inherited method is a parameter of the model. The object is the one
  that exists after \<^verbatim>\<open>open_comm\<close>: \<^verbatim>\<open>kernel_client\<close> is set.
\<close>

subsection \<open>Data\<close>

type_synonym comm_id = string
type_synonym call_id = string

datatype session = Session (bsession: string)

text \<open>
  A socket made by \<^verbatim>\<open>client._create_connected_socket(channel, identity=identity)\<close>: the
  channel name, the port it connects to (the client's \<^verbatim>\<open><channel>_port\<close>) and its identity.
  A channel is \<^verbatim>\<open>shell_channel_class(socket, session, ioloop)\<close>.
\<close>

datatype socket = Socket (socket_type: string) (socket_port: int) (socket_identity: string)

datatype channel = Channel (channel_socket: socket) (channel_session: session)

datatype signal = Sig_got_reply | Sig_comm_port_changed | Kernel_died

text \<open>
  The text of an exception. \<open>Waiting_for w\<close> is
  \<^verbatim>\<open>"Timeout while waiting for {}".format(w)\<close>, kept with the keys of the dictionary it
  was formatted from.
\<close>

datatype message = Text string | Waiting_for "call_id list"

text \<open>
  \<open>OtherException\<close> is any exception that is not an instance of \<^verbatim>\<open>RuntimeError\<close> and
  has no constructor of its own here (a \<^verbatim>\<open>ValueError\<close>, a \<^verbatim>\<open>TypeError\<close>, ...).
\<close>

datatype error =
    RuntimeError string
  | CommError string
  | TimeoutError message
  | KeyError comm_id
  | OtherException string

datatype 'a result = Returned 'a | Raised error

text \<open>
  \<^verbatim>\<open>except RuntimeError\<close> catches the instances of \<^verbatim>\<open>RuntimeError\<close>. \<^verbatim>\<open>CommError\<close>
  is declared \<^verbatim>\<open>class CommError(RuntimeError)\<close>. \<^verbatim>\<open>TimeoutError\<close> comes from
  \<^verbatim>\<open>spyder.py3compat\<close>: the builtin (an \<^verbatim>\<open>OSError\<close>) on Python 3, an alias of
  \<^verbatim>\<open>RuntimeError\<close> on Python 2; the flag \<open>py2\<close> says which.
\<close>

fun isinstance_RuntimeError :: "bool \<Rightarrow> error \<Rightarrow> bool" where
  "isinstance_RuntimeError py2 (RuntimeError m) = True"
| "isinstance_RuntimeError py2 (CommError m) = True"
| "isinstance_RuntimeError py2 (TimeoutError m) = py2"
| "isinstance_RuntimeError py2 (KeyError k) = False"
| "isinstance_RuntimeError py2 (OtherException m) = False"

text \<open>
  The arguments of one call of \<^verbatim>\<open>ssh_tunnel\<close>: local port, remote port, hostname,
  remote ip, ssh key, password, timeout.
\<close>

datatype tunnel_call = Tunnel_call int int string string string string int

text \<open>
  The settings of a call are a dictionary; a key that may be missing is an option.
\<close>

record settings =
  blocking :: "bool option"
  interrupt :: "bool option"

record call_dict =
  call_id :: call_id
  call_name :: string
  settings :: settings

text \<open>
  A call of the logger. \<open>Logger_info msg args\<close> is \<^verbatim>\<open>logger.info(msg, *args)\<close> with the
  literal \<open>msg\<close>; \<open>Logger_debug msg parts\<close> is \<^verbatim>\<open>logger.debug(msg + str(part))\<close>, one string
  and no further argument. The values given to \<^verbatim>\<open>str\<close> are kept as they are.
\<close>

datatype str_arg = Str_call_dict call_dict | Str_error error

datatype effect =
    Ssh_tunnel tunnel_call
  | Created_socket socket
  | is_Created_channel: Created_channel channel
  | Emitted signal
  | Send_comm_config
  | Logger_info string "str_arg list"
  | Logger_debug string "str_arg list"
  | Shutdown_request channel comm_id
  | Sent channel string

text \<open>
  The kernel client. An attribute that \<^verbatim>\<open>hasattr\<close> tests is an option: \<open>None\<close> when
  the client has no such attribute. \<open>comm_channel\<close> is \<open>None\<close> for Python's \<^verbatim>\<open>None\<close>.
  \<open>is_alive\<close> is what \<^verbatim>\<open>client.is_alive()\<close> answers.
\<close>

record kernel_client =
  ssh_parameters :: "(string \<times> string \<times> string) option"
  ip :: string
  comm_port :: "int option"
  comm_channel :: "channel option"
  shell_channel :: channel
  session :: session
  is_alive :: bool

text \<open>
  The KernelComm object. \<open>comms\<close> is the dictionary \<^verbatim>\<open>_comms\<close>, in insertion order,
  each comm given by its \<^verbatim>\<open>_send_channel\<close>. \<open>reply_inbox\<close> and \<open>reply_waitlist\<close> are the
  keys of the two dictionaries of \<^verbatim>\<open>CommBase\<close>. \<open>connections\<close> lists the signals that
  the \<^verbatim>\<open>quit\<close> slot of a wait loop is connected to.
\<close>

record kernel_comm =
  remote_comm_port :: "int option"
  kernel_client :: kernel_client
  comms :: "(comm_id \<times> channel) list"
  calling_comm_id :: "comm_id option"
  reply_inbox :: "call_id list"
  reply_waitlist :: "call_id list"
  connections :: "signal list"
  effects :: "effect list"

text \<open>
  What \<^verbatim>\<open>_set_comm_port\<close> takes from the platform: \<^verbatim>\<open>os.name\<close>, the port that
  \<^verbatim>\<open>zmqtunnel.select_random_ports(1)[0]\<close> picks, and the two tunnel functions, each
  answering \<open>None\<close> when it returns and \<open>Some e\<close> when it raises \<open>e\<close>.
\<close>

record platform =
  os_name :: string
  select_random_port :: int
  paramiko_tunnel :: "tunnel_call \<Rightarrow> error option"
  openssh_tunnel :: "tunnel_call \<Rightarrow> error option"

subsection \<open>Port negotiation\<close>

definition effect :: "effect list \<Rightarrow> kernel_comm \<Rightarrow> kernel_comm" where
  "effect es s = s\<lparr>effects := effects s @ es\<rparr>"

definition ssh_tunnel :: "platform \<Rightarrow> tunnel_call \<Rightarrow> error option" where
  "ssh_tunnel pf c = (if os_name pf = ''nt'' then paramiko_tunnel pf c else openssh_tunnel pf c)"

text \<open>
  Lines 64 to 73 of \<^verbatim>\<open>_set_comm_port\<close>: with \<^verbatim>\<open>ssh_parameters\<close> the port is tunnelled and
  the local end is the port to connect to; a tunnel that raises ends the method.
\<close>

definition tunnel_port :: "platform \<Rightarrow> int \<Rightarrow> kernel_comm \<Rightarrow> int result \<times> kernel_comm" where
  "tunnel_port pf port s =
     (let client = kernel_client s in
      case ssh_parameters client of
        None \<Rightarrow> (Returned port, s)
      | Some (hostname, sshkey, password) \<Rightarrow>
          (let local_port = select_random_port pf;
               remote_port = port;
               remote_ip = ip client;
               c = Tunnel_call local_port remote_port hostname remote_ip sshkey password 10;
               s' = effect [Ssh_tunnel c] s
           in case ssh_tunnel pf c of
                Some e \<Rightarrow> (Raised e, s')
              | None \<Rightarrow> (Returned local_port, s')))"

text \<open>
  Lines 75 to 83: unless the client is already bound to the port, bind it, make the
  socket and the channel, and emit \<^verbatim>\<open>_sig_comm_port_changed\<close>. The socket that
  \<^verbatim>\<open>_create_connected_socket('comm', identity=identity)\<close> makes connects to the client's
  \<^verbatim>\<open>comm_port\<close>, assigned on the line before.
\<close>

definition connect_comm_port :: "int \<Rightarrow> kernel_comm \<Rightarrow> unit result \<times> kernel_comm" where
  "connect_comm_port port s =
     (let client = kernel_client s in
      if comm_port client = Some port then (Returned (), s)
      else
        (let client1 = client\<lparr>comm_port := Some port\<rparr>;
             identity = bsession (session client1);
             socket = Socket ''comm'' port identity;
             chan = Channel socket (session client1);
             client2 = client1\<lparr>comm_channel := Some chan\<rparr>
         in (Returned (),
             effect [Created_socket socket, Created_channel chan, Emitted Sig_comm_port_changed]
               (s\<lparr>kernel_client := client2\<rparr>))))"

definition set_comm_port ::
  "platform \<Rightarrow> int option \<Rightarrow> kernel_comm \<Rightarrow> unit result \<times> kernel_comm" where
  "set_comm_port pf port s =
     (case port of
        None \<Rightarrow> (Returned (), s)
      | Some p \<Rightarrow>
          if remote_comm_port s = Some p then (Returned (), s)
          else
            (let s1 = s\<lparr>remote_comm_port := Some p\<rparr>
             in case tunnel_port pf p s1 of
                  (Raised e, s2) \<Rightarrow> (Raised e, s2)
                | (Returned port', s2) \<Rightarrow> connect_comm_port port' s2))"

subsection \<open>The comm channel and the scoped routing\<close>

definition comm_channel_connected :: "kernel_comm \<Rightarrow> bool" where
  "comm_channel_connected s = (comm_channel (kernel_client s) \<noteq> None)"

text \<open>
  \<^verbatim>\<open>self.remote_call()._send_comm_config()\<close>: a request to the kernel to send its comm
  configuration again. The call machinery is \<^verbatim>\<open>CommBase\<close>'s; the request is one effect.
\<close>

definition send_comm_config :: "kernel_comm \<Rightarrow> kernel_comm" where
  "send_comm_config s = effect [Send_comm_config] s"

definition get_comm_id_list :: "comm_id option \<Rightarrow> kernel_comm \<Rightarrow> comm_id list" where
  \<comment> \<open>Modelled from the spec: \<^verbatim>\<open>get_comm_id_list\<close> is inherited from \<^verbatim>\<open>CommBase\<close>; the comms
      matching a comm id are "a single id or all".\<close>
  "get_comm_id_list comm_id s = (case comm_id of None \<Rightarrow> map fst (comms s) | Some c \<Rightarrow> [c])"

text \<open>
  The loop \<^verbatim>\<open>for comm_id in id_list: self._comms[comm_id]['comm']._send_channel = chan\<close>.
  A comm id that is not a key of \<^verbatim>\<open>_comms\<close> raises \<^verbatim>\<open>KeyError\<close> and ends the loop, the
  assignments made so far staying in place.
\<close>

fun set_send_channel ::
  "comm_id list \<Rightarrow> channel \<Rightarrow> (comm_id \<times> channel) list \<Rightarrow> error option \<times> (comm_id \<times> channel) list" where
  "set_send_channel [] chan cs = (None, cs)"
| "set_send_channel (c # id_list) chan cs =
     (case map_of cs c of
        None \<Rightarrow> (Some (KeyError c), cs)
      | Some old \<Rightarrow> set_send_channel id_list chan (AList.update c chan cs))"

text \<open>
  \<^verbatim>\<open>comm_channel_manager\<close> is a generator under \<^verbatim>\<open>@contextmanager\<close>. What runs before
  the \<^verbatim>\<open>yield\<close> is \<open>comm_channel_manager_enter\<close>: it answers \<open>None\<close> on the queued path
  (\<^verbatim>\<open>yield; return\<close>) and the id list on the path that rebinds. The \<^verbatim>\<open>finally\<close> block is
  \<open>comm_channel_manager_exit\<close>; an exception it raises replaces the outcome of the body.
\<close>

definition comm_channel_manager_enter ::
  "comm_id option \<Rightarrow> bool \<Rightarrow> kernel_comm \<Rightarrow> comm_id list option result \<times> kernel_comm" where
  "comm_channel_manager_enter comm_id queue_message s =
     (if queue_message then (Returned None, s)
      else
        case comm_channel (kernel_client s) of
          None \<Rightarrow> (Raised (CommError ''Comm not connected.''), send_comm_config s)
        | Some chan \<Rightarrow>
            (let id_list = get_comm_id_list comm_id s
             in case set_send_channel id_list chan (comms s) of
                  (Some e, cs) \<Rightarrow> (Raised e, s\<lparr>comms := cs\<rparr>)
                | (None, cs) \<Rightarrow> (Returned (Some id_list), s\<lparr>comms := cs\<rparr>)))"

definition comm_channel_manager_exit ::
  "comm_id list \<Rightarrow> kernel_comm \<Rightarrow> error option \<times> kernel_comm" where
  "comm_channel_manager_exit id_list s =
     (case set_send_channel id_list (shell_channel (kernel_client s)) (comms s) of
        (e, cs) \<Rightarrow> (e, s\<lparr>comms := cs\<rparr>))"

definition comm_channel_manager ::
  "comm_id option \<Rightarrow> bool \<Rightarrow> (kernel_comm \<Rightarrow> 'a result \<times> kernel_comm) \<Rightarrow>
   kernel_comm \<Rightarrow> 'a result \<times> kernel_comm" where
  "comm_channel_manager comm_id queue_message body s =
     (case comm_channel_manager_enter comm_id queue_message s of
        (Raised e, s1) \<Rightarrow> (Raised e, s1)
      | (Returned None, s1) \<Rightarrow> body s1
      | (Returned (Some id_list), s1) \<Rightarrow>
          (case body s1 of
             (r, s2) \<Rightarrow>
               (case comm_channel_manager_exit id_list s2 of
                  (Some e, s3) \<Rightarrow> (Raised e, s3)
                | (None, s3) \<Rightarrow> (r, s3))))"

text \<open>
  \<^verbatim>\<open>_set_call_return_value\<close>; \<open>base\<close> is \<^verbatim>\<open>CommBase._set_call_return_value\<close>.
\<close>

definition set_call_return_value ::
  "('c \<Rightarrow> 'd \<Rightarrow> bool \<Rightarrow> kernel_comm \<Rightarrow> 'a result \<times> kernel_comm) \<Rightarrow>
   'c \<Rightarrow> 'd \<Rightarrow> bool \<Rightarrow> kernel_comm \<Rightarrow> 'a result \<times> kernel_comm" where
  "set_call_return_value base call_dict data is_error s =
     (let queue_message = \<not> comm_channel_connected s
      in comm_channel_manager (calling_comm_id s) queue_message
           (base call_dict data is_error) s)"

text \<open>\<^verbatim>\<open>remove\<close>: \<^verbatim>\<open>del self._comms[comm_id]\<close> for every id of the list.\<close>

fun del_comms ::
  "comm_id list \<Rightarrow> (comm_id \<times> channel) list \<Rightarrow> error option \<times> (comm_id \<times> channel) list" where
  "del_comms [] cs = (None, cs)"
| "del_comms (c # id_list) cs =
     (case map_of cs c of
        None \<Rightarrow> (Some (KeyError c), cs)
      | Some old \<Rightarrow> del_comms id_list (AList.delete c cs))"

definition remove :: "comm_id option \<Rightarrow> kernel_comm \<Rightarrow> unit result \<times> kernel_comm" where
  "remove comm_id s =
     (case del_comms (get_comm_id_list comm_id s) (comms s) of
        (Some e, cs) \<Rightarrow> (Raised e, s\<lparr>comms := cs\<rparr>)
      | (None, cs) \<Rightarrow> (Returned (), s\<lparr>comms := cs\<rparr>))"

text \<open>
  \<^verbatim>\<open>shutdown_comm_channel\<close>: a shutdown request per comm on the comm channel, then the
  channel is forgotten. The port attributes stay as they are.
\<close>

definition shutdown_comm_channel :: "kernel_comm \<Rightarrow> kernel_comm" where
  "shutdown_comm_channel s =
     (case comm_channel (kernel_client s) of
        None \<Rightarrow> s
      | Some chan \<Rightarrow>
          (let id_list = get_comm_id_list None s;
               s1 = effect (map (Shutdown_request chan) id_list) s
           in s1\<lparr>kernel_client := (kernel_client s1)\<lparr>comm_channel := None\<rparr>\<rparr>))"

subsection \<open>Calls\<close>

text \<open>\<open>truthy\<close> is \<^verbatim>\<open>'k' in settings and settings['k']\<close>.\<close>

definition truthy :: "bool option \<Rightarrow> bool" where
  "truthy v = (case v of None \<Rightarrow> False | Some b \<Rightarrow> b)"

text \<open>
  Lines 192 to 206 of \<^verbatim>\<open>_get_call_return_value\<close>: whether the call goes through the comm
  channel. A call that wants it while the channel is not connected asks for the comm
  configuration again and goes without; a blocking one raises.
\<close>

definition resolve_interrupt :: "call_dict \<Rightarrow> kernel_comm \<Rightarrow> bool result \<times> kernel_comm" where
  "resolve_interrupt cd s =
     (let is_blocking = truthy (blocking (settings cd));
          wants = truthy (interrupt (settings cd)) \<or> is_blocking
      in if wants \<and> \<not> comm_channel_connected s then
           (let s1 = send_comm_config s;
                s2 = effect [Logger_debug ''Dropping interrupt because comm is disconnected: ''
                              [Str_call_dict cd]] s1
            in if is_blocking then (Raised (CommError ''Cannot block on a disconnected comm''), s2)
               else (Returned False, s2))
         else (Returned wants, s))"

text \<open>
  Lines 212 to 222, the clause \<^verbatim>\<open>except RuntimeError as e\<close> around the routed call:
  a blocking call raises it again, another call logs it and returns \<^verbatim>\<open>None\<close>.
\<close>

definition except_RuntimeError ::
  "bool \<Rightarrow> bool \<Rightarrow> call_dict \<Rightarrow> 'v option result \<times> kernel_comm \<Rightarrow>
   'v option result \<times> kernel_comm" where
  "except_RuntimeError py2 is_blocking cd rs =
     (case rs of
        (Returned v, s) \<Rightarrow> (Returned v, s)
      | (Raised e, s) \<Rightarrow>
          if isinstance_RuntimeError py2 e then
            (if is_blocking then (Raised e, s)
             else (Returned None,
                   effect [Logger_info ''Dropping message because of exception: ''
                             [Str_error e, Str_call_dict cd]] s))
          else (Raised e, s))"

text \<open>
  \<^verbatim>\<open>_get_call_return_value\<close>; \<open>base\<close> is \<^verbatim>\<open>CommBase._get_call_return_value\<close>. Python's
  \<^verbatim>\<open>None\<close> is the value \<open>None\<close>.
\<close>

definition get_call_return_value ::
  "bool \<Rightarrow> (call_dict \<Rightarrow> 'd \<Rightarrow> comm_id option \<Rightarrow> kernel_comm \<Rightarrow> 'v option result \<times> kernel_comm) \<Rightarrow>
   call_dict \<Rightarrow> 'd \<Rightarrow> comm_id option \<Rightarrow> kernel_comm \<Rightarrow> 'v option result \<times> kernel_comm" where
  "get_call_return_value py2 base cd call_data comm_id s =
     (let is_blocking = truthy (blocking (settings cd))
      in if \<not> is_alive (kernel_client s) then
           (if is_blocking then (Raised (RuntimeError ''Kernel is dead''), s)
            else (Returned None,
                  effect [Logger_info ''Dropping message because kernel is dead: ''
                            [Str_call_dict cd]] s))
         else
           case resolve_interrupt cd s of
             (Raised e, s1) \<Rightarrow> (Raised e, s1)
           | (Returned wants, s1) \<Rightarrow>
               except_RuntimeError py2 is_blocking cd
                 (comm_channel_manager comm_id (\<not> wants) (base cd call_data comm_id) s1))"

subsection \<open>Waiting for a reply\<close>

text \<open>
  \<^verbatim>\<open>_wait\<close> runs a Qt event loop, \<^verbatim>\<open>wait_loop.exec_()\<close>, which returns when a signal
  connected to \<^verbatim>\<open>wait_loop.quit\<close> is emitted. What the event loop delivers is an input of
  the model, a list of occurrences in the order they happen, each with the time in
  milliseconds that passes before it, counted from the occurrence before it (the first
  from the start of the timer):
  \<^item> \<open>Reply_received m\<close>: the reply \<open>m\<close> arrives and \<^verbatim>\<open>_handle_remote_call_reply\<close> handles it;
  \<^item> \<open>Kernel_dies\<close>: the kernel stops, \<^verbatim>\<open>is_alive()\<close> answers \<^verbatim>\<open>False\<close> from then on and
    the heartbeat channel emits \<^verbatim>\<open>kernel_died\<close>.
  The single-shot timer \<^verbatim>\<open>wait_timeout\<close> is local to the call. It is not active until
  \<^verbatim>\<open>wait_timeout.start(timeout * 1000)\<close>; from then on it is active with the time that
  remains, and when that time has passed it emits \<^verbatim>\<open>timeout\<close>, which is connected to
  \<^verbatim>\<open>wait_loop.quit\<close>, and is no longer active. An occurrence due at the very moment the
  timer fires comes after it. The clock of the model is the time since the start of the
  timer; the code itself takes no time.
\<close>

datatype 'm occurrence = Reply_received 'm | Kernel_dies

definition emit :: "signal \<Rightarrow> kernel_comm \<Rightarrow> kernel_comm" where
  "emit sg s = effect [Emitted sg] s"

text \<open>
  \<^verbatim>\<open>_handle_remote_call_reply\<close>; \<open>base\<close> is \<^verbatim>\<open>CommBase._handle_remote_call_reply\<close>.
\<close>

definition handle_remote_call_reply ::
  "('m \<Rightarrow> kernel_comm \<Rightarrow> kernel_comm) \<Rightarrow> 'm \<Rightarrow> kernel_comm \<Rightarrow> kernel_comm" where
  "handle_remote_call_reply base msg s = emit Sig_got_reply (base msg s)"

definition connect :: "signal \<Rightarrow> kernel_comm \<Rightarrow> kernel_comm" where
  "connect sg s = s\<lparr>connections := connections s @ [sg]\<rparr>"

definition disconnect :: "signal \<Rightarrow> kernel_comm \<Rightarrow> kernel_comm" where
  "disconnect sg s = s\<lparr>connections := remove1 sg (connections s)\<rparr>"

text \<open>
  One occurrence inside \<^verbatim>\<open>exec_()\<close>: the object after it, and whether it reaches
  \<^verbatim>\<open>wait_loop.quit\<close>.
\<close>

fun deliver :: "('m \<Rightarrow> kernel_comm \<Rightarrow> kernel_comm) \<Rightarrow> 'm occurrence \<Rightarrow> kernel_comm \<Rightarrow> kernel_comm" where
  "deliver base (Reply_received m) s = handle_remote_call_reply base m s"
| "deliver base Kernel_dies s = s\<lparr>kernel_client := (kernel_client s)\<lparr>is_alive := False\<rparr>\<rparr>"

fun quits :: "'m occurrence \<Rightarrow> kernel_comm \<Rightarrow> bool" where
  "quits (Reply_received m) s = (Sig_got_reply \<in> set (connections s))"
| "quits Kernel_dies s = (Kernel_died \<in> set (connections s))"

text \<open>
  \<open>wait_while\<close> is the loop \<^verbatim>\<open>while not condition():\<close> of \<^verbatim>\<open>_wait\<close> from its test on, with
  the lines after the loop on its exit. Its argument \<open>timer\<close> is \<open>None\<close> when the timer is not
  active and the time that remains otherwise; \<open>now\<close> is the clock. \<open>wait_exec\<close> is
  \<^verbatim>\<open>wait_loop.exec_()\<close> with the timer active: it returns to the test of the loop at an
  occurrence that quits or when the timer fires, whichever is first. The result is the
  outcome of \<^verbatim>\<open>_wait\<close>, the clock at that moment and the object.
\<close>

function wait_while ::
    "('m \<Rightarrow> kernel_comm \<Rightarrow> kernel_comm) \<Rightarrow> (kernel_comm \<Rightarrow> bool) \<Rightarrow> signal \<Rightarrow> message \<Rightarrow>
     (nat \<times> 'm occurrence) list \<Rightarrow> int option \<Rightarrow> int \<Rightarrow> kernel_comm \<Rightarrow>
     unit result \<times> int \<times> kernel_comm"
  and wait_exec ::
    "('m \<Rightarrow> kernel_comm \<Rightarrow> kernel_comm) \<Rightarrow> (kernel_comm \<Rightarrow> bool) \<Rightarrow> signal \<Rightarrow> message \<Rightarrow>
     (nat \<times> 'm occurrence) list \<Rightarrow> int \<Rightarrow> int \<Rightarrow> kernel_comm \<Rightarrow>
     unit result \<times> int \<times> kernel_comm" where
  "wait_while base condition sg timeout_msg os timer now s =
     (if condition s then
        (Returned (), now, disconnect Kernel_died (disconnect sg s))
      else
        case timer of
          None \<Rightarrow>
            (let s' = disconnect Kernel_died (disconnect sg s)
             in if condition s' then (Returned (), now, s')
                else if \<not> is_alive (kernel_client s') then
                  (Raised (RuntimeError ''Kernel is dead''), now, s')
                else (Raised (TimeoutError timeout_msg), now, s'))
        | Some remaining \<Rightarrow> wait_exec base condition sg timeout_msg os remaining now s)"
| "wait_exec base condition sg timeout_msg [] remaining now s =
     wait_while base condition sg timeout_msg [] None (now + remaining) s"
| "wait_exec base condition sg timeout_msg ((d, x) # os) remaining now s =
     (if remaining \<le> int d then
        wait_while base condition sg timeout_msg [] None (now + remaining) s
      else
        (let s' = deliver base x s
         in if quits x s'
            then wait_while base condition sg timeout_msg os (Some (remaining - int d)) (now + int d) s'
            else wait_exec base condition sg timeout_msg os (remaining - int d) (now + int d) s'))"
  by pat_completeness auto
termination
  by (relation "measure (\<lambda>p. case p of
         Inl (base, condition, sg, timeout_msg, os, timer, now, s) \<Rightarrow>
           2 * length os + (case timer of None \<Rightarrow> 0 | Some r \<Rightarrow> 2)
       | Inr (base, condition, sg, timeout_msg, os, remaining, now, s) \<Rightarrow> 2 * length os + 1)")
    auto

text \<open>
  \<^verbatim>\<open>_wait\<close>: the two tests, then the timer and the connections, then the loop with the
  timer started for \<^verbatim>\<open>timeout * 1000\<close> milliseconds. The timeout is a whole number of
  seconds here.
\<close>

definition wait ::
  "('m \<Rightarrow> kernel_comm \<Rightarrow> kernel_comm) \<Rightarrow> (kernel_comm \<Rightarrow> bool) \<Rightarrow> signal \<Rightarrow> message \<Rightarrow> int \<Rightarrow>
   (nat \<times> 'm occurrence) list \<Rightarrow> kernel_comm \<Rightarrow> unit result \<times> int \<times> kernel_comm" where
  "wait base condition sg timeout_msg timeout os s =
     (if condition s then (Returned (), 0, s)
      else if \<not> is_alive (kernel_client s) then (Raised (RuntimeError ''Kernel is dead''), 0, s)
      else
        (let wait_timeout = Some (timeout * 1000)
         in wait_while base condition sg timeout_msg os wait_timeout 0
              (connect sg (connect Kernel_died s))))"

text \<open>\<^verbatim>\<open>_wait_reply\<close>: the message is formatted before the wait starts.\<close>

definition wait_reply ::
  "('m \<Rightarrow> kernel_comm \<Rightarrow> kernel_comm) \<Rightarrow> call_id \<Rightarrow> string \<Rightarrow> int \<Rightarrow>
   (nat \<times> 'm occurrence) list \<Rightarrow> kernel_comm \<Rightarrow> unit result \<times> int \<times> kernel_comm" where
  "wait_reply base cid cname timeout os s =
     (let got_reply = (\<lambda>t. cid \<in> set (reply_inbox t));
          timeout_msg = Waiting_for (reply_waitlist s)
      in wait base got_reply Sig_got_reply timeout_msg timeout os s)"

definition handle_reply :: "call_id \<Rightarrow> kernel_comm \<Rightarrow> kernel_comm" where
  \<comment> \<open>Modelled from the spec: \<^verbatim>\<open>CommBase._handle_remote_call_reply\<close> is inherited; a reply is
      written to the reply inbox under its call id and the call leaves the outstanding set.\<close>
  "handle_reply c s =
     (if c \<in> set (reply_waitlist s)
      then s\<lparr>reply_waitlist := removeAll c (reply_waitlist s), reply_inbox := reply_inbox s @ [c]\<rparr>
      else s)"

subsection \<open>Observations and example objects\<close>

text \<open>How many channels were constructed and how often the port change was signalled.\<close>

definition constructions :: "kernel_comm \<Rightarrow> nat" where
  "constructions s = length (filter is_Created_channel (effects s))"

definition port_changes :: "kernel_comm \<Rightarrow> nat" where
  "port_changes s = count_list (effects s) (Emitted Sig_comm_port_changed)"

definition renegotiations :: "kernel_comm \<Rightarrow> nat" where
  "renegotiations s = count_list (effects s) Send_comm_config"

text \<open>
  Whether a call of the logger makes a log entry. The logging module formats a record
  with arguments as \<^verbatim>\<open>msg % args\<close>, which raises \<^verbatim>\<open>TypeError\<close> unless the message has a
  conversion for each argument, and then no entry is written; a record without arguments
  is its message. The messages of this file have no escaped percent sign, so the
  conversions of a message are its percent signs.
\<close>

fun log_entry :: "effect \<Rightarrow> bool" where
  "log_entry (Logger_info msg args) = (args = [] \<or> count_list msg (CHR ''%'') = length args)"
| "log_entry (Logger_debug msg parts) = True"
| "log_entry _ = False"

definition log_entries :: "kernel_comm \<Rightarrow> nat" where
  "log_entries s = length (filter log_entry (effects s))"

text \<open>
  A KernelComm just opened on a local kernel with one comm \<open>a\<close>, the same on a remote
  kernel, a platform whose tunnels work and one whose tunnels raise.
\<close>

definition shell0 :: channel where
  "shell0 = Channel (Socket ''shell'' 5001 ''key'') (Session ''key'')"

definition client0 :: kernel_client where
  "client0 = \<lparr>ssh_parameters = None, ip = ''127.0.0.1'', comm_port = None,
     comm_channel = None, shell_channel = shell0, session = Session ''key'', is_alive = True\<rparr>"

definition comm0 :: kernel_comm where
  "comm0 = \<lparr>remote_comm_port = None, kernel_client = client0, comms = [(''a'', shell0)],
     calling_comm_id = Some ''a'', reply_inbox = [], reply_waitlist = [], connections = [],
     effects = []\<rparr>"

definition remote0 :: kernel_comm where
  "remote0 = comm0\<lparr>kernel_client := client0\<lparr>ssh_parameters := Some (''host'', ''key.pem'', ''pw''),
     ip := ''10.0.0.7''\<rparr>\<rparr>"

definition posix :: platform where
  "posix = \<lparr>os_name = ''posix'', select_random_port = 40000,
     paramiko_tunnel = (\<lambda>c. None), openssh_tunnel = (\<lambda>c. None)\<rparr>"

definition posix_no_tunnel :: platform where
  "posix_no_tunnel = posix\<lparr>openssh_tunnel := (\<lambda>c. Some (RuntimeError ''tunnel did not start''))\<rparr>"

definition comm_chan0 :: channel where
  "comm_chan0 = Channel (Socket ''comm'' 5555 ''key'') (Session ''key'')"

definition connected0 :: kernel_comm where
  "connected0 = comm0\<lparr>remote_comm_port := Some 5555,
     kernel_client := client0\<lparr>comm_port := Some 5555, comm_channel := Some comm_chan0\<rparr>\<rparr>"

text \<open>The same objects with a dead kernel and with two calls outstanding.\<close>

definition dead0 :: kernel_comm where
  "dead0 = comm0\<lparr>kernel_client := client0\<lparr>is_alive := False\<rparr>\<rparr>"

definition waiting0 :: kernel_comm where
  "waiting0 = comm0\<lparr>reply_waitlist := [''c1'', ''c2'']\<rparr>"

text \<open>A call with no settings, a blocking one and one that asks for an interrupt.\<close>

definition call0 :: call_dict where
  "call0 = \<lparr>call_id = ''c1'', call_name = ''get_value'',
     settings = \<lparr>blocking = None, interrupt = None\<rparr>\<rparr>"

definition blocking0 :: call_dict where
  "blocking0 = call0\<lparr>settings := \<lparr>blocking = Some True, interrupt = None\<rparr>\<rparr>"

definition interrupt0 :: call_dict where
  "interrupt0 = call0\<lparr>settings := \<lparr>blocking = None, interrupt = Some True\<rparr>\<rparr>"

text \<open>
  Bodies for the routed calls: \<open>send_on c\<close> sends a message on the send channel that the
  comm \<open>c\<close> has at that moment, \<open>returns\<close> does so and returns a value, \<open>raises\<close> does so and
  raises; \<open>reply\<close> sends a reply, \<open>refuse\<close> sends one and raises \<^verbatim>\<open>CommError\<close>.
\<close>

definition send_on :: "comm_id \<Rightarrow> string \<Rightarrow> kernel_comm \<Rightarrow> kernel_comm" where
  "send_on c text s = (case map_of (comms s) c of None \<Rightarrow> s | Some chan \<Rightarrow> effect [Sent chan text] s)"

definition returns ::
  "nat \<Rightarrow> call_dict \<Rightarrow> unit \<Rightarrow> comm_id option \<Rightarrow> kernel_comm \<Rightarrow> nat option result \<times> kernel_comm" where
  "returns v cd call_data comm_id s = (Returned (Some v), send_on ''a'' (call_name cd) s)"

definition raises ::
  "error \<Rightarrow> call_dict \<Rightarrow> unit \<Rightarrow> comm_id option \<Rightarrow> kernel_comm \<Rightarrow> nat option result \<times> kernel_comm" where
  "raises e cd call_data comm_id s = (Raised e, send_on ''a'' (call_name cd) s)"

definition reply :: "call_dict \<Rightarrow> nat \<Rightarrow> bool \<Rightarrow> kernel_comm \<Rightarrow> unit result \<times> kernel_comm" where
  "reply cd data is_error s = (Returned (), send_on ''a'' ''reply'' s)"

definition refuse ::
  "string \<Rightarrow> call_dict \<Rightarrow> nat \<Rightarrow> bool \<Rightarrow> kernel_comm \<Rightarrow> unit result \<times> kernel_comm" where
  "refuse m cd data is_error s = (Raised (CommError m), send_on ''a'' ''reply'' s)"

lemmas example_defs = comm0_def client0_def shell0_def remote0_def posix_def posix_no_tunnel_def
  comm_chan0_def connected0_def dead0_def waiting0_def

lemmas call_defs = call0_def blocking0_def interrupt0_def returns_def raises_def reply_def
  refuse_def send_on_def

section \<open>Port negotiation: \<^verbatim>\<open>_set_comm_port\<close>\<close>


lemma effect_append: "effect ys (effect xs s) = effect (xs @ ys) s"
  by (simp add: effect_def)

lemma set_comm_port_absent: "set_comm_port pf None s = (Returned (), s)"
  by (simp add: set_comm_port_def)

lemma set_comm_port_recorded:
  "remote_comm_port s = Some p \<Longrightarrow> set_comm_port pf (Some p) s = (Returned (), s)"
  by (simp add: set_comm_port_def)

lemma tunnel_port_remote_comm_port:
  "tunnel_port pf p s = (r, s') \<Longrightarrow> remote_comm_port s' = remote_comm_port s"
  by (auto simp: tunnel_port_def effect_def Let_def split: option.splits prod.splits)

lemma connect_comm_port_remote_comm_port:
  "connect_comm_port q s = (r, s') \<Longrightarrow> remote_comm_port s' = remote_comm_port s"
  by (auto simp: connect_comm_port_def effect_def Let_def split: if_splits)

lemma set_comm_port_records:
  "set_comm_port pf (Some p) s = (r, s') \<Longrightarrow> remote_comm_port s' = Some p"
  by (auto simp: set_comm_port_def Let_def split: if_splits prod.splits result.splits
      dest!: tunnel_port_remote_comm_port connect_comm_port_remote_comm_port)

lemma tunnel_port_constructions:
  "tunnel_port pf p s = (r, s') \<Longrightarrow>
     constructions s' = constructions s \<and> port_changes s' = port_changes s \<and>
     kernel_client s' = kernel_client s"
  by (auto simp: tunnel_port_def effect_def Let_def constructions_def port_changes_def
      split: option.splits prod.splits)

lemma connect_comm_port_bound:
  "comm_port (kernel_client s) = Some q \<Longrightarrow> connect_comm_port q s = (Returned (), s)"
  by (simp add: connect_comm_port_def)

lemma connect_comm_port_new:
  "comm_port (kernel_client s) \<noteq> Some q \<Longrightarrow>
   connect_comm_port q s =
     (Returned (),
      effect [Created_socket (Socket ''comm'' q (bsession (session (kernel_client s)))),
              Created_channel (Channel (Socket ''comm'' q (bsession (session (kernel_client s))))
                 (session (kernel_client s))),
              Emitted Sig_comm_port_changed]
        (s\<lparr>kernel_client := (kernel_client s)\<lparr>comm_port := Some q,
             comm_channel := Some (Channel (Socket ''comm'' q (bsession (session (kernel_client s))))
                 (session (kernel_client s)))\<rparr>\<rparr>))"
  by (simp add: connect_comm_port_def Let_def)

lemma connect_comm_port_constructions:
  "connect_comm_port q s = (r, s') \<Longrightarrow>
     constructions s' = (if comm_port (kernel_client s) = Some q then 0 else 1) + constructions s \<and>
     port_changes s' = (if comm_port (kernel_client s) = Some q then 0 else 1) + port_changes s"
  by (auto simp: connect_comm_port_def effect_def Let_def constructions_def port_changes_def
      split: if_splits)

lemma set_comm_port_new:
  "remote_comm_port s \<noteq> Some p \<Longrightarrow>
   set_comm_port pf (Some p) s =
     (case tunnel_port pf p (s\<lparr>remote_comm_port := Some p\<rparr>) of
        (Raised e, s2) \<Rightarrow> (Raised e, s2)
      | (Returned q, s2) \<Rightarrow> connect_comm_port q s2)"
  by (simp add: set_comm_port_def)

text \<open>
  C10. On a remote kernel (the client has \<^verbatim>\<open>ssh_parameters\<close>), when \<^verbatim>\<open>_set_comm_port\<close> is
  called with a port that is not the recorded one and the call of \<^verbatim>\<open>ssh_tunnel\<close> raises,
  the exception leaves the method with \<^verbatim>\<open>remote_comm_port\<close> already set to the new port and
  the client as it was: no channel is constructed. The next call with the same port, on any
  platform, returns at once and changes nothing: the tunnel is not tried again.
\<close>

theorem set_comm_port_tunnel_failure:
  assumes "ssh_parameters (kernel_client s) = Some (hostname, sshkey, password)"
    and "remote_comm_port s \<noteq> Some p"
    and "ssh_tunnel pf (Tunnel_call (select_random_port pf) p hostname (ip (kernel_client s))
           sshkey password 10) = Some e"
    and "s' = effect [Ssh_tunnel (Tunnel_call (select_random_port pf) p hostname
           (ip (kernel_client s)) sshkey password 10)] (s\<lparr>remote_comm_port := Some p\<rparr>)"
  shows "set_comm_port pf (Some p) s = (Raised e, s')
       \<and> remote_comm_port s' = Some p
       \<and> kernel_client s' = kernel_client s
       \<and> constructions s' = constructions s
       \<and> set_comm_port pf' (Some p) s' = (Returned (), s')"
proof -
  have r: "remote_comm_port s' = Some p"
    using assms(4) by (simp add: effect_def)
  have "tunnel_port pf p (s\<lparr>remote_comm_port := Some p\<rparr>) = (Raised e, s')"
    using assms(1,3,4) by (simp add: tunnel_port_def Let_def)
  then have "set_comm_port pf (Some p) s = (Raised e, s')"
    using assms(2) by (simp add: set_comm_port_new)
  moreover have "kernel_client s' = kernel_client s" "constructions s' = constructions s"
    using assms(4) by (simp_all add: effect_def constructions_def)
  moreover have "set_comm_port pf' (Some p) s' = (Returned (), s')"
    using r by (rule set_comm_port_recorded)
  ultimately show ?thesis using r by simp
qed

theorem set_comm_port_tunnel_failure_witness:
  "set_comm_port posix_no_tunnel (Some 6000) remote0 =
     (Raised (RuntimeError ''tunnel did not start''),
      effect [Ssh_tunnel (Tunnel_call 40000 6000 ''host'' ''10.0.0.7'' ''key.pem'' ''pw'' 10)]
        (remote0\<lparr>remote_comm_port := Some 6000\<rparr>))
   \<and> set_comm_port posix (Some 6000)
       (effect [Ssh_tunnel (Tunnel_call 40000 6000 ''host'' ''10.0.0.7'' ''key.pem'' ''pw'' 10)]
        (remote0\<lparr>remote_comm_port := Some 6000\<rparr>)) =
     (Returned (),
      effect [Ssh_tunnel (Tunnel_call 40000 6000 ''host'' ''10.0.0.7'' ''key.pem'' ''pw'' 10)]
        (remote0\<lparr>remote_comm_port := Some 6000\<rparr>))"
  using set_comm_port_tunnel_failure [of remote0 "''host''" "''key.pem''" "''pw''" 6000
      posix_no_tunnel "RuntimeError ''tunnel did not start''" _ posix, OF _ _ _ refl]
  by (simp add: remote0_def comm0_def client0_def posix_no_tunnel_def posix_def ssh_tunnel_def)

text \<open>
  C1 (as amended). When \<^verbatim>\<open>_set_comm_port\<close> is called with a port that is not the recorded
  \<^verbatim>\<open>remote_comm_port\<close>, the tunnel (if the kernel is remote) does not raise, and the resolved
  port \<open>q\<close> is not the port the client is bound to, then a socket of type comm for \<open>q\<close> with
  the identity of the client's session and a channel on it are constructed, the client's
  \<^verbatim>\<open>comm_channel\<close> becomes that channel and \<^verbatim>\<open>_sig_comm_port_changed\<close> is emitted once.
  Whether a comm channel is installed plays no part.
\<close>

theorem set_comm_port_installs_channel:
  assumes "remote_comm_port s \<noteq> Some p"
    and "tunnel_port pf p (s\<lparr>remote_comm_port := Some p\<rparr>) = (Returned q, s2)"
    and "comm_port (kernel_client s) \<noteq> Some q"
    and "chan = Channel (Socket ''comm'' q (bsession (session (kernel_client s))))
           (session (kernel_client s))"
  shows "\<exists>s3. set_comm_port pf (Some p) s = (Returned (), s3)
       \<and> comm_channel (kernel_client s3) = Some chan
       \<and> comm_port (kernel_client s3) = Some q
       \<and> effects s3 = effects s2 @
           [Created_socket (channel_socket chan), Created_channel chan, Emitted Sig_comm_port_changed]
       \<and> constructions s3 = constructions s + 1
       \<and> port_changes s3 = port_changes s + 1"
proof -
  from assms(2) have k: "kernel_client s2 = kernel_client s"
    and c: "constructions s2 = constructions s" "port_changes s2 = port_changes s"
    by (auto dest!: tunnel_port_constructions simp: constructions_def port_changes_def)
  have "set_comm_port pf (Some p) s = connect_comm_port q s2"
    using assms(1,2) by (simp add: set_comm_port_new)
  moreover have "comm_port (kernel_client s2) \<noteq> Some q"
    using k assms(3) by simp
  ultimately show ?thesis
    using k c assms(4)
    by (simp add: connect_comm_port_new effect_def constructions_def port_changes_def)
qed

theorem set_comm_port_installs_channel_witness:
  "\<exists>s3. set_comm_port posix (Some 6000) remote0 = (Returned (), s3)
       \<and> comm_channel (kernel_client s3) = Some (Channel (Socket ''comm'' 40000 ''key'') (Session ''key''))
       \<and> comm_port (kernel_client s3) = Some 40000
       \<and> effects s3 =
           [Ssh_tunnel (Tunnel_call 40000 6000 ''host'' ''10.0.0.7'' ''key.pem'' ''pw'' 10),
            Created_socket (Socket ''comm'' 40000 ''key''),
            Created_channel (Channel (Socket ''comm'' 40000 ''key'') (Session ''key'')),
            Emitted Sig_comm_port_changed]
       \<and> constructions s3 = 1 \<and> port_changes s3 = 1"
  using set_comm_port_installs_channel [of remote0 6000 posix 40000
      "effect [Ssh_tunnel (Tunnel_call 40000 6000 ''host'' ''10.0.0.7'' ''key.pem'' ''pw'' 10)]
         (remote0\<lparr>remote_comm_port := Some 6000\<rparr>)"
      "Channel (Socket ''comm'' 40000 ''key'') (Session ''key'')"]
  by (simp add: example_defs tunnel_port_def ssh_tunnel_def effect_def Let_def
      constructions_def port_changes_def)

text \<open>
  The claim as written fails where no comm channel is installed and the port is the
  recorded one: after a port was applied and the comm channel was shut down, the same
  port constructs nothing and the comm channel stays \<^verbatim>\<open>None\<close>.
\<close>

theorem set_comm_port_no_channel_counterexample:
  "remote_comm_port (shutdown_comm_channel (snd (set_comm_port posix (Some 5555) comm0))) = Some 5555
   \<and> comm_channel (kernel_client
        (shutdown_comm_channel (snd (set_comm_port posix (Some 5555) comm0)))) = None
   \<and> set_comm_port posix (Some 5555)
        (shutdown_comm_channel (snd (set_comm_port posix (Some 5555) comm0))) =
      (Returned (), shutdown_comm_channel (snd (set_comm_port posix (Some 5555) comm0)))"
  by (simp add: example_defs set_comm_port_def tunnel_port_def connect_comm_port_def
      shutdown_comm_channel_def get_comm_id_list_def effect_def Let_def)

lemma set_comm_port_at_most_one:
  assumes "set_comm_port pf (Some p) s = (r, s1)"
  shows "constructions s1 \<le> constructions s + 1 \<and> port_changes s1 \<le> port_changes s + 1"
proof (cases "remote_comm_port s = Some p")
  case True
  with assms show ?thesis by (simp add: set_comm_port_recorded)
next
  case False
  obtain r2 s2 where t: "tunnel_port pf p (s\<lparr>remote_comm_port := Some p\<rparr>) = (r2, s2)"
    by (cases "tunnel_port pf p (s\<lparr>remote_comm_port := Some p\<rparr>)")
  then have c: "constructions s2 = constructions s" "port_changes s2 = port_changes s"
    by (auto dest!: tunnel_port_constructions simp: constructions_def port_changes_def)
  show ?thesis
  proof (cases r2)
    case (Raised e)
    with assms False t c show ?thesis by (auto simp: set_comm_port_new)
  next
    case (Returned q)
    with assms False t have "connect_comm_port q s2 = (r, s1)"
      by (simp add: set_comm_port_new)
    from connect_comm_port_constructions [OF this] c show ?thesis
      by (simp split: if_splits)
  qed
qed

text \<open>
  C7 (as amended). \<^verbatim>\<open>_set_comm_port\<close> with an absent port, or with the recorded port, changes
  nothing: no channel is constructed and no signal emitted. Applied twice in a row with
  the same port, the second call changes nothing, so the two calls construct what the
  first one does: at most one channel and one signal, and exactly one of each when the
  port is not the recorded one, the tunnel (if any) does not raise and the resolved port is
  not the port the client is bound to.
\<close>

theorem set_comm_port_idempotent:
  "set_comm_port pf None s = (Returned (), s)
   \<and> (remote_comm_port s = Some p \<longrightarrow> set_comm_port pf (Some p) s = (Returned (), s))
   \<and> (set_comm_port pf (Some p) s = (r, s1) \<longrightarrow>
        set_comm_port pf' (Some p) s1 = (Returned (), s1)
        \<and> constructions s1 \<le> constructions s + 1 \<and> port_changes s1 \<le> port_changes s + 1)
   \<and> (remote_comm_port s \<noteq> Some p
        \<and> tunnel_port pf p (s\<lparr>remote_comm_port := Some p\<rparr>) = (Returned q, s2)
        \<and> comm_port (kernel_client s) \<noteq> Some q \<longrightarrow>
        constructions (snd (set_comm_port pf' (Some p) (snd (set_comm_port pf (Some p) s))))
          = constructions s + 1
        \<and> port_changes (snd (set_comm_port pf' (Some p) (snd (set_comm_port pf (Some p) s))))
          = port_changes s + 1)"
proof (intro conjI impI)
  show "set_comm_port pf None s = (Returned (), s)" by (rule set_comm_port_absent)
next
  assume "remote_comm_port s = Some p"
  then show "set_comm_port pf (Some p) s = (Returned (), s)" by (rule set_comm_port_recorded)
next
  assume a: "set_comm_port pf (Some p) s = (r, s1)"
  then show "set_comm_port pf' (Some p) s1 = (Returned (), s1)"
    by (intro set_comm_port_recorded) (rule set_comm_port_records)
  from set_comm_port_at_most_one [OF a]
  show "constructions s1 \<le> constructions s + 1" "port_changes s1 \<le> port_changes s + 1"
    by simp_all
next
  assume a: "remote_comm_port s \<noteq> Some p
        \<and> tunnel_port pf p (s\<lparr>remote_comm_port := Some p\<rparr>) = (Returned q, s2)
        \<and> comm_port (kernel_client s) \<noteq> Some q"
  obtain r1 s1 where f: "set_comm_port pf (Some p) s = (r1, s1)"
    by (cases "set_comm_port pf (Some p) s")
  then have g: "set_comm_port pf' (Some p) s1 = (Returned (), s1)"
    by (intro set_comm_port_recorded) (rule set_comm_port_records)
  from a have k: "kernel_client s2 = kernel_client s" "constructions s2 = constructions s"
    "port_changes s2 = port_changes s"
    by (auto dest!: tunnel_port_constructions simp: constructions_def port_changes_def)
  from a f have "connect_comm_port q s2 = (r1, s1)" by (simp add: set_comm_port_new)
  from connect_comm_port_constructions [OF this] a k
  have "constructions s1 = constructions s + 1 \<and> port_changes s1 = port_changes s + 1" by simp
  with f g
  show "constructions (snd (set_comm_port pf' (Some p) (snd (set_comm_port pf (Some p) s))))
          = constructions s + 1"
    "port_changes (snd (set_comm_port pf' (Some p) (snd (set_comm_port pf (Some p) s))))
          = port_changes s + 1"
    by simp_all
qed

theorem set_comm_port_idempotent_witness:
  "remote_comm_port connected0 = Some 5555
   \<and> set_comm_port posix (Some 5555) connected0 = (Returned (), connected0)
   \<and> remote_comm_port comm0 \<noteq> Some 5555
   \<and> tunnel_port posix 5555 (comm0\<lparr>remote_comm_port := Some 5555\<rparr>)
        = (Returned 5555, comm0\<lparr>remote_comm_port := Some 5555\<rparr>)
   \<and> comm_port (kernel_client comm0) \<noteq> Some 5555
   \<and> constructions (snd (set_comm_port posix (Some 5555) (snd (set_comm_port posix (Some 5555) comm0)))) = 1
   \<and> port_changes (snd (set_comm_port posix (Some 5555) (snd (set_comm_port posix (Some 5555) comm0)))) = 1
   \<and> set_comm_port posix (Some 5555) (snd (set_comm_port posix (Some 5555) comm0))
       = (Returned (), snd (set_comm_port posix (Some 5555) comm0))"
proof -
  have a: "remote_comm_port connected0 = Some 5555"
    by (simp add: example_defs)
  have b: "remote_comm_port comm0 \<noteq> Some 5555
      \<and> tunnel_port posix 5555 (comm0\<lparr>remote_comm_port := Some 5555\<rparr>)
           = (Returned 5555, comm0\<lparr>remote_comm_port := Some 5555\<rparr>)
      \<and> comm_port (kernel_client comm0) \<noteq> Some 5555"
    by (simp add: example_defs tunnel_port_def)
  have z: "constructions comm0 = 0" "port_changes comm0 = 0"
    by (simp_all add: example_defs constructions_def port_changes_def)
  have p: "set_comm_port posix (Some 5555) comm0 =
      (fst (set_comm_port posix (Some 5555) comm0), snd (set_comm_port posix (Some 5555) comm0))"
    by simp
  from a set_comm_port_idempotent [of posix connected0 5555]
  have c: "set_comm_port posix (Some 5555) connected0 = (Returned (), connected0)"
    by blast
  from b set_comm_port_idempotent [of posix comm0 5555 _ _ posix 5555
      "comm0\<lparr>remote_comm_port := Some 5555\<rparr>"]
  have d: "constructions (snd (set_comm_port posix (Some 5555)
        (snd (set_comm_port posix (Some 5555) comm0)))) = constructions comm0 + 1
      \<and> port_changes (snd (set_comm_port posix (Some 5555)
        (snd (set_comm_port posix (Some 5555) comm0)))) = port_changes comm0 + 1"
    by blast
  from p set_comm_port_idempotent [of posix comm0 5555
      "fst (set_comm_port posix (Some 5555) comm0)" "snd (set_comm_port posix (Some 5555) comm0)" posix]
  have e: "set_comm_port posix (Some 5555) (snd (set_comm_port posix (Some 5555) comm0))
       = (Returned (), snd (set_comm_port posix (Some 5555) comm0))"
    by blast
  from a b c d e z show ?thesis by simp
qed

text \<open>
  The claim as written fails: on a fresh KernelComm whose client is already bound to the
  port, and on one that has recorded the port, two calls with the port construct no
  channel and emit no signal.
\<close>

theorem set_comm_port_twice_counterexample:
  "constructions (snd (set_comm_port posix (Some 5555) (snd (set_comm_port posix (Some 5555)
      (comm0\<lparr>kernel_client := client0\<lparr>comm_port := Some 5555\<rparr>\<rparr>))))) = 0
   \<and> port_changes (snd (set_comm_port posix (Some 5555) (snd (set_comm_port posix (Some 5555)
      (comm0\<lparr>kernel_client := client0\<lparr>comm_port := Some 5555\<rparr>\<rparr>))))) = 0
   \<and> constructions (snd (set_comm_port posix (Some 5555) (snd (set_comm_port posix (Some 5555)
      connected0)))) = 0
   \<and> port_changes (snd (set_comm_port posix (Some 5555) (snd (set_comm_port posix (Some 5555)
      connected0)))) = 0"
  by (simp add: example_defs set_comm_port_def tunnel_port_def connect_comm_port_def
      effect_def Let_def constructions_def port_changes_def)

section \<open>Scoped routing: \<^verbatim>\<open>comm_channel_manager\<close>\<close>

lemma comm_channel_manager_queued: "comm_channel_manager comm_id True body s = body s"
  by (simp add: comm_channel_manager_def comm_channel_manager_enter_def)

lemma set_send_channel_raises:
  "set_send_channel id_list chan cs = (Some e, cs') \<Longrightarrow> \<exists>c. e = KeyError c"
  by (induction id_list chan cs rule: set_send_channel.induct) (auto split: option.splits)

lemma set_send_channel_registered:
  "set id_list \<subseteq> fst ` set cs \<Longrightarrow>
   \<exists>cs'. set_send_channel id_list chan cs = (None, cs')
     \<and> map_of cs' = (\<lambda>c. if c \<in> set id_list then Some chan else map_of cs c)
     \<and> map fst cs' = map fst cs"
proof (induction id_list arbitrary: cs)
  case Nil
  then show ?case by simp
next
  case (Cons c id_list)
  from Cons.prems have c: "c \<in> fst ` set cs" and r: "set id_list \<subseteq> fst ` set cs"
    by simp_all
  from c obtain old where o: "map_of cs c = Some old"
    by (metis domD dom_map_of_conv_image_fst)
  from r have "set id_list \<subseteq> fst ` set (AList.update c chan cs)"
    by (auto simp: dom_update)
  from Cons.IH [OF this] obtain cs' where
    s: "set_send_channel id_list chan (AList.update c chan cs) = (None, cs')"
    and m: "map_of cs' = (\<lambda>x. if x \<in> set id_list then Some chan else map_of (AList.update c chan cs) x)"
    and k: "map fst cs' = map fst (AList.update c chan cs)"
    by blast
  from c have "map fst (AList.update c chan cs) = map fst cs"
    by (simp add: update_keys)
  with s m k o show ?case
    by (auto simp: update_conv' fun_eq_iff)
qed

text \<open>
  C6 (as amended). With \<^verbatim>\<open>queue_message\<close> false and the comm channel connected, when every
  comm id of the list is a key of \<^verbatim>\<open>_comms\<close> on entry and still one when the body ends:
  the body starts with the send channel of each listed comm bound to the comm channel and
  the other comms as they were; whatever the body's outcome \<open>r\<close>, a return or a raise, it is
  the outcome of the scope, and on exit each listed comm is bound to the shell channel,
  the rest of the object being as the body left it. With \<^verbatim>\<open>queue_message\<close> true the scope
  is the body alone.
\<close>

theorem comm_channel_manager_rebinds:
  assumes "comm_channel (kernel_client s) = Some chan"
    and "id_list = get_comm_id_list comm_id s"
    and "set id_list \<subseteq> fst ` set (comms s)"
    and "body (snd (comm_channel_manager_enter comm_id False s)) = (r, s2)"
    and "set id_list \<subseteq> fst ` set (comms s2)"
  shows "(\<exists>cs1. comm_channel_manager_enter comm_id False s = (Returned (Some id_list), s\<lparr>comms := cs1\<rparr>)
            \<and> (\<forall>c\<in>set id_list. map_of cs1 c = Some chan)
            \<and> (\<forall>c. c \<notin> set id_list \<longrightarrow> map_of cs1 c = map_of (comms s) c))
       \<and> (\<exists>cs3. comm_channel_manager comm_id False body s = (r, s2\<lparr>comms := cs3\<rparr>)
            \<and> (\<forall>c\<in>set id_list. map_of cs3 c = Some (shell_channel (kernel_client s2)))
            \<and> (\<forall>c. c \<notin> set id_list \<longrightarrow> map_of cs3 c = map_of (comms s2) c))
       \<and> comm_channel_manager comm_id True body s = body s"
proof -
  from set_send_channel_registered [OF assms(3), of chan] obtain cs1 where
    a: "set_send_channel id_list chan (comms s) = (None, cs1)"
    and b: "map_of cs1 = (\<lambda>c. if c \<in> set id_list then Some chan else map_of (comms s) c)"
    by blast
  from a assms(1,2)
  have e: "comm_channel_manager_enter comm_id False s = (Returned (Some id_list), s\<lparr>comms := cs1\<rparr>)"
    by (simp add: comm_channel_manager_enter_def)
  from set_send_channel_registered [OF assms(5), of "shell_channel (kernel_client s2)"]
  obtain cs3 where
    c: "set_send_channel id_list (shell_channel (kernel_client s2)) (comms s2) = (None, cs3)"
    and d: "map_of cs3 = (\<lambda>c. if c \<in> set id_list then Some (shell_channel (kernel_client s2))
                             else map_of (comms s2) c)"
    by blast
  from e assms(4) have "body (s\<lparr>comms := cs1\<rparr>) = (r, s2)" by simp
  with e c have f: "comm_channel_manager comm_id False body s = (r, s2\<lparr>comms := cs3\<rparr>)"
    by (simp add: comm_channel_manager_def comm_channel_manager_exit_def)
  from e b have "\<exists>cs1. comm_channel_manager_enter comm_id False s = (Returned (Some id_list), s\<lparr>comms := cs1\<rparr>)
            \<and> (\<forall>c\<in>set id_list. map_of cs1 c = Some chan)
            \<and> (\<forall>c. c \<notin> set id_list \<longrightarrow> map_of cs1 c = map_of (comms s) c)"
    by (intro exI [of _ cs1]) simp
  moreover from f d have "\<exists>cs3. comm_channel_manager comm_id False body s = (r, s2\<lparr>comms := cs3\<rparr>)
            \<and> (\<forall>c\<in>set id_list. map_of cs3 c = Some (shell_channel (kernel_client s2)))
            \<and> (\<forall>c. c \<notin> set id_list \<longrightarrow> map_of cs3 c = map_of (comms s2) c)"
    by (intro exI [of _ cs3]) simp
  ultimately show ?thesis
    by (simp add: comm_channel_manager_queued)
qed

text \<open>
  On the connected object, a body that sends on comm \<open>a\<close> and raises: the message goes out on
  the comm channel, the exception is the outcome, and the comm is back on the shell channel.
\<close>

theorem comm_channel_manager_rebinds_witness:
  "comm_channel (kernel_client connected0) = Some comm_chan0
   \<and> get_comm_id_list None connected0 = [''a'']
   \<and> comm_channel_manager_enter None False connected0
       = (Returned (Some [''a'']), connected0\<lparr>comms := [(''a'', comm_chan0)]\<rparr>)
   \<and> comm_channel_manager None False (raises (OtherException ''ValueError'') call0 () None) connected0
       = (Raised (OtherException ''ValueError''), effect [Sent comm_chan0 ''get_value''] connected0)
   \<and> map_of (comms (effect [Sent comm_chan0 ''get_value''] connected0)) ''a'' = Some shell0
   \<and> comm_channel_manager None True (raises (OtherException ''ValueError'') call0 () None) connected0
       = (Raised (OtherException ''ValueError''), effect [Sent shell0 ''get_value''] connected0)"
proof -
  let ?body = "raises (OtherException ''ValueError'') call0 () None"
  let ?s1 = "connected0\<lparr>comms := [(''a'', comm_chan0)]\<rparr>"
  have a: "comm_channel (kernel_client connected0) = Some comm_chan0"
    "get_comm_id_list None connected0 = [''a'']"
    by (simp_all add: example_defs get_comm_id_list_def)
  have e: "comm_channel_manager_enter None False connected0 = (Returned (Some [''a'']), ?s1)"
    by (simp add: example_defs comm_channel_manager_enter_def get_comm_id_list_def)
  have f: "?body (snd (comm_channel_manager_enter None False connected0))
       = (Raised (OtherException ''ValueError''), effect [Sent comm_chan0 ''get_value''] ?s1)"
    by (simp add: e call_defs)
  have k: "set [''a''] \<subseteq> fst ` set (comms connected0)"
    "set [''a''] \<subseteq> fst ` set (comms (effect [Sent comm_chan0 ''get_value''] ?s1))"
    by (simp_all add: example_defs effect_def)
  from comm_channel_manager_rebinds [of connected0 comm_chan0 "[''a'']" None ?body
      "Raised (OtherException ''ValueError'')" "effect [Sent comm_chan0 ''get_value''] ?s1",
      OF a(1) a(2) [symmetric] k(1) f k(2)]
  obtain cs3 where
    m: "comm_channel_manager None False ?body connected0
        = (Raised (OtherException ''ValueError''),
           (effect [Sent comm_chan0 ''get_value''] ?s1)\<lparr>comms := cs3\<rparr>)"
    and q: "comm_channel_manager None True ?body connected0 = ?body connected0"
    by blast
  have "comm_channel_manager None False ?body connected0
       = (Raised (OtherException ''ValueError''), effect [Sent comm_chan0 ''get_value''] connected0)"
    by (simp add: example_defs call_defs comm_channel_manager_def comm_channel_manager_enter_def
        comm_channel_manager_exit_def get_comm_id_list_def effect_def)
  moreover have "map_of (comms (effect [Sent comm_chan0 ''get_value''] connected0)) ''a'' = Some shell0"
    "?body connected0 = (Raised (OtherException ''ValueError''), effect [Sent shell0 ''get_value''] connected0)"
    by (simp_all add: example_defs call_defs effect_def)
  ultimately show ?thesis using a e q by simp
qed

text \<open>
  The claim as written fails for a body that removes the comm (the method \<^verbatim>\<open>remove\<close>): the
  \<^verbatim>\<open>finally\<close> block looks the comm up in \<^verbatim>\<open>_comms\<close> and raises \<^verbatim>\<open>KeyError\<close>.
\<close>

theorem comm_channel_manager_restore_counterexample:
  "comm_channel_connected connected0
   \<and> get_comm_id_list (Some ''a'') connected0 = [''a'']
   \<and> map_of (comms connected0) ''a'' = Some shell0
   \<and> comm_channel_manager (Some ''a'') False (remove (Some ''a'')) connected0
       = (Raised (KeyError ''a''), connected0\<lparr>comms := []\<rparr>)"
  by (simp add: example_defs comm_channel_connected_def comm_channel_manager_def
      comm_channel_manager_enter_def comm_channel_manager_exit_def get_comm_id_list_def
      remove_def)

lemma set_send_channel_effects_free:
  "comm_channel_manager_exit id_list s = (e, s') \<Longrightarrow> effects s' = effects s"
  by (auto simp: comm_channel_manager_exit_def split: prod.splits)

text \<open>
  What \<^verbatim>\<open>_set_call_return_value\<close> does around the inherited method: either the comm it is
  to route is not registered and \<^verbatim>\<open>KeyError\<close> leaves it before \<open>base\<close> runs, nothing else
  done; or \<open>base\<close> runs once, on an object with the effects and the kernel client of the
  start, and the outcome is that of \<open>base\<close> or a \<^verbatim>\<open>KeyError\<close> of the restore, the effects
  being those \<open>base\<close> left.
\<close>

lemma set_call_return_value_cases:
  assumes "set_call_return_value base call_dict data is_error s = (r, s')"
  shows "(\<exists>c. r = Raised (KeyError c) \<and> effects s' = effects s \<and> comm_channel_connected s)
       \<or> (\<exists>t r0 t'. base call_dict data is_error t = (r0, t')
             \<and> effects t = effects s \<and> kernel_client t = kernel_client s
             \<and> effects s' = effects t'
             \<and> (r = r0 \<or> (\<exists>c. r = Raised (KeyError c))))"
proof (cases "comm_channel (kernel_client s)")
  case None
  with assms have "base call_dict data is_error s = (r, s')"
    by (simp add: set_call_return_value_def comm_channel_connected_def comm_channel_manager_queued)
  then show ?thesis by blast
next
  case (Some chan)
  let ?ids = "get_comm_id_list (calling_comm_id s) s"
  obtain e1 cs1 where a: "set_send_channel ?ids chan (comms s) = (e1, cs1)"
    by (cases "set_send_channel ?ids chan (comms s)")
  show ?thesis
  proof (cases e1)
    case (Some x)
    with a obtain c where "x = KeyError c"
      by (auto dest: set_send_channel_raises)
    with a Some \<open>comm_channel (kernel_client s) = Some chan\<close> assms
    have "r = Raised (KeyError c) \<and> effects s' = effects s \<and> comm_channel_connected s"
      by (auto simp: set_call_return_value_def comm_channel_connected_def comm_channel_manager_def
          comm_channel_manager_enter_def)
    then show ?thesis by blast
  next
    case None
    let ?t = "s\<lparr>comms := cs1\<rparr>"
    obtain r0 t' where b: "base call_dict data is_error ?t = (r0, t')"
      by (cases "base call_dict data is_error ?t")
    obtain e3 s3 where c: "comm_channel_manager_exit ?ids t' = (e3, s3)"
      by (cases "comm_channel_manager_exit ?ids t'")
    then have f: "effects s3 = effects t'"
      by (rule set_send_channel_effects_free)
    from a None b c \<open>comm_channel (kernel_client s) = Some chan\<close> assms
    have d: "(r, s') = (case e3 of Some e \<Rightarrow> (Raised e, s3) | None \<Rightarrow> (r0, s3))"
      by (simp add: set_call_return_value_def comm_channel_connected_def comm_channel_manager_def
          comm_channel_manager_enter_def)
    have "r = r0 \<or> (\<exists>c. r = Raised (KeyError c))"
    proof (cases e3)
      case None
      with d show ?thesis by simp
    next
      case (Some e)
      with c obtain k where "e = KeyError k"
        by (auto simp: comm_channel_manager_exit_def split: prod.splits dest: set_send_channel_raises)
      with d Some show ?thesis by simp
    qed
    moreover from d have "s' = s3" by (simp split: option.splits)
    ultimately have "base call_dict data is_error ?t = (r0, t')
             \<and> effects ?t = effects s \<and> kernel_client ?t = kernel_client s
             \<and> effects s' = effects t'
             \<and> (r = r0 \<or> (\<exists>c. r = Raised (KeyError c)))"
      using b f by simp
    then show ?thesis by blast
  qed
qed

text \<open>
  C5. \<^verbatim>\<open>_set_call_return_value\<close> never fails for a comm channel that is not ready. When the
  comm channel is not connected the method is the inherited one, run on the object as it
  is: the reply goes out on the channels the comms are bound to. Whatever the state of the
  channel, a \<^verbatim>\<open>CommError\<close> that leaves the method was raised by the inherited method itself;
  and the method adds no effect of its own to those of the inherited method, so it never
  asks for the comm configuration: the branch of \<^verbatim>\<open>comm_channel_manager\<close> that asks and
  raises is never taken. The one failure the routing can add is the \<^verbatim>\<open>KeyError\<close> of a comm
  that is not registered.
\<close>

theorem set_call_return_value_never_refused:
  "(\<not> comm_channel_connected s \<longrightarrow>
        set_call_return_value base call_dict data is_error s = base call_dict data is_error s)
   \<and> (set_call_return_value base call_dict data is_error s = (Raised (CommError m), s') \<longrightarrow>
        (\<exists>t t'. base call_dict data is_error t = (Raised (CommError m), t')
           \<and> effects t = effects s \<and> kernel_client t = kernel_client s \<and> effects s' = effects t'))
   \<and> (set_call_return_value base call_dict data is_error s = (r, s'') \<longrightarrow>
        (\<exists>c. r = Raised (KeyError c) \<and> effects s'' = effects s \<and> comm_channel_connected s)
        \<or> (\<exists>t r0 t'. base call_dict data is_error t = (r0, t')
              \<and> effects t = effects s \<and> kernel_client t = kernel_client s
              \<and> effects s'' = effects t'
              \<and> (r = r0 \<or> (\<exists>c. r = Raised (KeyError c)))))"
proof (intro conjI impI)
  assume "\<not> comm_channel_connected s"
  then show "set_call_return_value base call_dict data is_error s = base call_dict data is_error s"
    by (simp add: set_call_return_value_def comm_channel_manager_queued)
next
  assume "set_call_return_value base call_dict data is_error s = (Raised (CommError m), s')"
  from set_call_return_value_cases [OF this]
  show "\<exists>t t'. base call_dict data is_error t = (Raised (CommError m), t')
           \<and> effects t = effects s \<and> kernel_client t = kernel_client s \<and> effects s' = effects t'"
    by auto
next
  assume "set_call_return_value base call_dict data is_error s = (r, s'')"
  then show "(\<exists>c. r = Raised (KeyError c) \<and> effects s'' = effects s \<and> comm_channel_connected s)
        \<or> (\<exists>t r0 t'. base call_dict data is_error t = (r0, t')
              \<and> effects t = effects s \<and> kernel_client t = kernel_client s
              \<and> effects s'' = effects t'
              \<and> (r = r0 \<or> (\<exists>c. r = Raised (KeyError c))))"
    by (rule set_call_return_value_cases)
qed

text \<open>
  On the object without a comm channel the reply goes out on the shell channel; on the
  connected one it goes out on the comm channel, the comm is back on the shell channel
  afterwards, and a \<^verbatim>\<open>CommError\<close> of the inherited method is the one that leaves.
\<close>

theorem set_call_return_value_never_refused_witness:
  "\<not> comm_channel_connected comm0
   \<and> set_call_return_value reply call0 (7::nat) False comm0
       = (Returned (), effect [Sent shell0 ''reply''] comm0)
   \<and> set_call_return_value (refuse ''closed'') call0 (7::nat) False connected0
       = (Raised (CommError ''closed''), effect [Sent comm_chan0 ''reply''] connected0)
   \<and> (\<exists>t t'. refuse ''closed'' call0 (7::nat) False t = (Raised (CommError ''closed''), t')
         \<and> effects t = effects connected0 \<and> kernel_client t = kernel_client connected0
         \<and> effects (effect [Sent comm_chan0 ''reply''] connected0) = effects t')"
proof -
  have a: "\<not> comm_channel_connected comm0"
    by (simp add: example_defs comm_channel_connected_def)
  have b: "reply call0 (7::nat) False comm0 = (Returned (), effect [Sent shell0 ''reply''] comm0)"
    by (simp add: example_defs call_defs)
  have c: "set_call_return_value (refuse ''closed'') call0 (7::nat) False connected0
       = (Raised (CommError ''closed''), effect [Sent comm_chan0 ''reply''] connected0)"
    by (simp add: example_defs call_defs set_call_return_value_def comm_channel_connected_def
        comm_channel_manager_def comm_channel_manager_enter_def comm_channel_manager_exit_def
        get_comm_id_list_def effect_def)
  from a b c
    set_call_return_value_never_refused [of comm0 reply call0 7 False]
    set_call_return_value_never_refused [of connected0 "refuse ''closed''" call0 7 False
      "''closed''" "effect [Sent comm_chan0 ''reply''] connected0"]
  show ?thesis by simp
qed

section \<open>Calls: \<^verbatim>\<open>_get_call_return_value\<close>\<close>

lemma resolve_interrupt_disconnected:
  assumes "truthy (interrupt (settings cd)) \<or> truthy (blocking (settings cd))"
    and "\<not> comm_channel_connected s"
  shows "resolve_interrupt cd s =
     (if truthy (blocking (settings cd)) then Raised (CommError ''Cannot block on a disconnected comm'')
      else Returned False,
      effect [Send_comm_config,
              Logger_debug ''Dropping interrupt because comm is disconnected: '' [Str_call_dict cd]] s)"
  using assms by (auto simp: resolve_interrupt_def send_comm_config_def effect_def Let_def)

text \<open>
  C8. When the kernel client reports that the kernel is not alive, a blocking call raises
  \<^verbatim>\<open>RuntimeError("Kernel is dead")\<close> and the object is untouched: nothing was routed and
  nothing requested. Any other call returns \<^verbatim>\<open>None\<close> and the one thing done is one call
  of \<^verbatim>\<open>logger.info\<close>. Both hold whatever the inherited method \<open>base\<close> is: it is not run.
  The call of the logger passes \<^verbatim>\<open>str(call_dict)\<close> as an argument to a message that has
  no conversion for it, so the record cannot be formatted and no log entry comes of it,
  where the claim has exactly one.
\<close>

theorem get_call_return_value_dead_kernel:
  assumes "\<not> is_alive (kernel_client s)"
  shows "get_call_return_value py2 base cd call_data comm_id s =
     (if truthy (blocking (settings cd)) then (Raised (RuntimeError ''Kernel is dead''), s)
      else (Returned None,
            effect [Logger_info ''Dropping message because kernel is dead: '' [Str_call_dict cd]] s))
   \<and> log_entries (snd (get_call_return_value py2 base cd call_data comm_id s)) = log_entries s"
  using assms by (simp add: get_call_return_value_def log_entries_def effect_def)

theorem get_call_return_value_dead_kernel_witness:
  "\<not> is_alive (kernel_client dead0)
   \<and> get_call_return_value False (returns 1) blocking0 () (Some ''a'') dead0
       = (Raised (RuntimeError ''Kernel is dead''), dead0)
   \<and> get_call_return_value False (returns 1) call0 () (Some ''a'') dead0
       = (Returned None,
          effect [Logger_info ''Dropping message because kernel is dead: '' [Str_call_dict call0]] dead0)
   \<and> log_entries (snd (get_call_return_value False (returns 1) call0 () (Some ''a'') dead0)) = 0"
proof -
  have a: "\<not> is_alive (kernel_client dead0)"
    by (simp add: example_defs)
  have b: "truthy (blocking (settings blocking0))" "\<not> truthy (blocking (settings call0))"
    by (simp_all add: call_defs truthy_def)
  have c: "log_entries dead0 = 0"
    by (simp add: example_defs log_entries_def)
  note t1 = get_call_return_value_dead_kernel [of dead0 False "returns 1" blocking0 "()" "Some ''a''", OF a]
  note t2 = get_call_return_value_dead_kernel [of dead0 False "returns 1" call0 "()" "Some ''a''", OF a]
  from conjunct1 [OF t1] b
  have d: "get_call_return_value False (returns 1) blocking0 () (Some ''a'') dead0
       = (Raised (RuntimeError ''Kernel is dead''), dead0)"
    by simp
  from conjunct1 [OF t2] b
  have e: "get_call_return_value False (returns 1) call0 () (Some ''a'') dead0
       = (Returned None,
          effect [Logger_info ''Dropping message because kernel is dead: '' [Str_call_dict call0]] dead0)"
    by simp
  from conjunct2 [OF t2] c
  have l: "log_entries (snd (get_call_return_value False (returns 1) call0 () (Some ''a'') dead0)) = 0"
    by simp
  from a d e l show ?thesis by blast
qed

text \<open>
  C3 (as amended). When the kernel is alive, the call is blocking or asks for an interrupt,
  and the comm channel is not connected: the method asks once for the comm configuration
  and logs at debug level, leaving the comms as they are; after that a blocking call
  raises \<^verbatim>\<open>CommError\<close> whatever \<open>base\<close> is (it is not run), and another call runs \<open>base\<close>
  on that object, with no comm rebound, under the \<^verbatim>\<open>except RuntimeError\<close> clause.
\<close>

theorem get_call_return_value_disconnected:
  assumes "is_alive (kernel_client s)"
    and "truthy (interrupt (settings cd)) \<or> truthy (blocking (settings cd))"
    and "\<not> comm_channel_connected s"
    and "s2 = effect [Send_comm_config,
           Logger_debug ''Dropping interrupt because comm is disconnected: '' [Str_call_dict cd]] s"
  shows "renegotiations s2 = renegotiations s + 1 \<and> comms s2 = comms s
     \<and> get_call_return_value py2 base cd call_data comm_id s =
        (if truthy (blocking (settings cd))
         then (Raised (CommError ''Cannot block on a disconnected comm''), s2)
         else except_RuntimeError py2 False cd (base cd call_data comm_id s2))"
  using assms
  by (simp add: get_call_return_value_def resolve_interrupt_disconnected
      comm_channel_manager_queued renegotiations_def effect_def)

theorem get_call_return_value_disconnected_witness:
  "is_alive (kernel_client comm0) \<and> \<not> comm_channel_connected comm0
   \<and> get_call_return_value False (returns 1) blocking0 () (Some ''a'') comm0
       = (Raised (CommError ''Cannot block on a disconnected comm''),
          effect [Send_comm_config,
                  Logger_debug ''Dropping interrupt because comm is disconnected: ''
                    [Str_call_dict blocking0]] comm0)
   \<and> get_call_return_value False (returns 1) interrupt0 () (Some ''a'') comm0
       = (Returned (Some 1),
          effect [Send_comm_config,
                  Logger_debug ''Dropping interrupt because comm is disconnected: ''
                    [Str_call_dict interrupt0],
                  Sent shell0 ''get_value''] comm0)"
proof -
  let ?s2 = "\<lambda>cd. effect [Send_comm_config,
      Logger_debug ''Dropping interrupt because comm is disconnected: '' [Str_call_dict cd]] comm0"
  have a: "is_alive (kernel_client comm0)" "\<not> comm_channel_connected comm0"
    by (simp_all add: example_defs comm_channel_connected_def)
  have b: "truthy (blocking (settings blocking0))" "\<not> truthy (blocking (settings interrupt0))"
    "truthy (interrupt (settings interrupt0))"
    by (simp_all add: call_defs truthy_def)
  have c: "except_RuntimeError False False interrupt0 (returns 1 interrupt0 () (Some ''a'') (?s2 interrupt0))
      = (Returned (Some 1),
          effect [Send_comm_config,
                  Logger_debug ''Dropping interrupt because comm is disconnected: ''
                    [Str_call_dict interrupt0],
                  Sent shell0 ''get_value''] comm0)"
    by (simp add: except_RuntimeError_def returns_def send_on_def example_defs effect_def
        interrupt0_def call0_def)
  from a b c
    get_call_return_value_disconnected [of comm0 blocking0 "?s2 blocking0" False "returns 1" "()" "Some ''a''"]
    get_call_return_value_disconnected [of comm0 interrupt0 "?s2 interrupt0" False "returns 1" "()" "Some ''a''"]
  show ?thesis by simp
qed

text \<open>
  The claim as written fails when the kernel is not alive: a blocking call on a
  disconnected comm channel raises \<^verbatim>\<open>RuntimeError("Kernel is dead")\<close>, not \<^verbatim>\<open>CommError\<close>,
  and the comm configuration is not asked for.
\<close>

theorem get_call_return_value_disconnected_counterexample:
  "(truthy (interrupt (settings blocking0)) \<or> truthy (blocking (settings blocking0)))
   \<and> \<not> comm_channel_connected dead0
   \<and> get_call_return_value False (returns 1) blocking0 () (Some ''a'') dead0
       = (Raised (RuntimeError ''Kernel is dead''), dead0)
   \<and> renegotiations dead0 = 0"
  by (simp add: call_defs example_defs truthy_def comm_channel_connected_def
      get_call_return_value_def renegotiations_def)

text \<open>
  C9 (as amended). When the kernel is alive and the routed call of \<open>base\<close> raises \<open>e\<close>: if \<open>e\<close>
  is an instance of \<^verbatim>\<open>RuntimeError\<close> and the call is not blocking, the method gives one
  record to \<^verbatim>\<open>logger.info\<close> and returns \<^verbatim>\<open>None\<close>; in every other case, an exception of
  another class or a blocking call, \<open>e\<close> leaves the method, raised to its caller.
\<close>

theorem get_call_return_value_handler_fails:
  assumes "is_alive (kernel_client s)"
    and "resolve_interrupt cd s = (Returned wants, s1)"
    and "comm_channel_manager comm_id (\<not> wants) (base cd call_data comm_id) s1 = (Raised e, s2)"
  shows "get_call_return_value py2 base cd call_data comm_id s =
     (if isinstance_RuntimeError py2 e \<and> \<not> truthy (blocking (settings cd))
      then (Returned None,
            effect [Logger_info ''Dropping message because of exception: ''
                      [Str_error e, Str_call_dict cd]] s2)
      else (Raised e, s2))"
  using assms by (simp add: get_call_return_value_def except_RuntimeError_def)

theorem get_call_return_value_handler_fails_witness:
  "is_alive (kernel_client comm0)
   \<and> resolve_interrupt call0 comm0 = (Returned False, comm0)
   \<and> comm_channel_manager (Some ''a'') (\<not> False) (raises (RuntimeError ''boom'') call0 () (Some ''a'')) comm0
       = (Raised (RuntimeError ''boom''), effect [Sent shell0 ''get_value''] comm0)
   \<and> get_call_return_value False (raises (RuntimeError ''boom'')) call0 () (Some ''a'') comm0
       = (Returned None,
          effect [Sent shell0 ''get_value'',
                  Logger_info ''Dropping message because of exception: ''
                    [Str_error (RuntimeError ''boom''), Str_call_dict call0]] comm0)
   \<and> is_alive (kernel_client connected0)
   \<and> resolve_interrupt blocking0 connected0 = (Returned True, connected0)
   \<and> get_call_return_value False (raises (RuntimeError ''boom'')) blocking0 () (Some ''a'') connected0
       = (Raised (RuntimeError ''boom''), effect [Sent comm_chan0 ''get_value''] connected0)"
proof -
  let ?raises = "raises (RuntimeError ''boom'')"
  have a: "is_alive (kernel_client comm0)" "is_alive (kernel_client connected0)"
    by (simp_all add: example_defs)
  have b: "resolve_interrupt call0 comm0 = (Returned False, comm0)"
    "resolve_interrupt blocking0 connected0 = (Returned True, connected0)"
    by (simp_all add: resolve_interrupt_def call_defs example_defs truthy_def comm_channel_connected_def)
  have c: "comm_channel_manager (Some ''a'') (\<not> False) (?raises call0 () (Some ''a'')) comm0
       = (Raised (RuntimeError ''boom''), effect [Sent shell0 ''get_value''] comm0)"
    by (simp add: comm_channel_manager_queued call_defs example_defs)
  have c': "comm_channel_manager (Some ''a'') (\<not> True) (?raises blocking0 () (Some ''a'')) connected0
       = (Raised (RuntimeError ''boom''), effect [Sent comm_chan0 ''get_value''] connected0)"
    by (simp add: example_defs call_defs comm_channel_manager_def comm_channel_manager_enter_def
        comm_channel_manager_exit_def get_comm_id_list_def effect_def)
  have d: "\<not> truthy (blocking (settings call0))" "truthy (blocking (settings blocking0))"
    by (simp_all add: call_defs truthy_def)
  from get_call_return_value_handler_fails [of comm0 call0 False comm0 "Some ''a''"
      ?raises "()" "RuntimeError ''boom''" "effect [Sent shell0 ''get_value''] comm0" False, OF a(1) b(1) c]
    get_call_return_value_handler_fails [of connected0 blocking0 True connected0 "Some ''a''"
      ?raises "()" "RuntimeError ''boom''" "effect [Sent comm_chan0 ''get_value''] connected0" False,
      OF a(2) b(2) c']
    d a b c
  show ?thesis by (simp add: effect_append)
qed

text \<open>
  The claim as written fails for a failure that is not a \<^verbatim>\<open>RuntimeError\<close>: from a call
  that is not blocking it leaves the method, and nothing is logged.
\<close>

theorem get_call_return_value_handler_fails_counterexample:
  "\<not> truthy (blocking (settings call0)) \<and> is_alive (kernel_client comm0)
   \<and> get_call_return_value False (raises (OtherException ''ValueError'')) call0 () (Some ''a'') comm0
       = (Raised (OtherException ''ValueError''), effect [Sent shell0 ''get_value''] comm0)"
  by (simp add: call_defs example_defs truthy_def comm_channel_connected_def
      get_call_return_value_def resolve_interrupt_def comm_channel_manager_queued
      except_RuntimeError_def)

section \<open>Waiting: \<^verbatim>\<open>_wait\<close> and \<^verbatim>\<open>_wait_reply\<close>\<close>

lemma disconnect_fields:
  "kernel_client (disconnect x t) = kernel_client t"
  "connections (disconnect x t) = remove1 x (connections t)"
  "reply_inbox (disconnect x t) = reply_inbox t"
  by (simp_all add: disconnect_def)

text \<open>
  While replies arrive that leave the condition false and the kernel alive, the loop goes
  on; it raises the timeout, with the message it was given, when the time that remained
  on the timer has passed.
\<close>

lemma wait_exec_no_reply:
  assumes "\<forall>(d, m)\<in>set dms. \<forall>t. is_alive (kernel_client (base m t)) = is_alive (kernel_client t)
             \<and> connections (base m t) = connections t
             \<and> (condition (emit Sig_got_reply (base m t)) \<longleftrightarrow> condition t)"
    and "\<And>t x. condition (disconnect x t) = condition t"
    and "\<not> condition t" and "is_alive (kernel_client t)"
  shows "\<exists>t'. wait_exec base condition sg msg (map (\<lambda>(d, m). (d, Reply_received m)) dms) remaining now t
           = (Raised (TimeoutError msg), now + remaining, t')
         \<and> connections t' = remove1 Kernel_died (remove1 sg (connections t))"
  using assms
proof (induction dms arbitrary: t remaining now)
  case Nil
  then show ?case by (simp add: Let_def disconnect_fields)
next
  case (Cons dm dms)
  obtain d m where dm: "dm = (d, m)" by (cases dm)
  show ?case
  proof (cases "remaining \<le> int d")
    case True
    with dm Cons.prems(2,3,4) show ?thesis
      by (simp add: Let_def disconnect_fields)
  next
    case False
    let ?t = "handle_remote_call_reply base m t"
    from Cons.prems dm have a: "\<not> condition ?t" "is_alive (kernel_client ?t)"
      "connections ?t = connections t"
      by (simp_all add: handle_remote_call_reply_def emit_def effect_def)
    from Cons.prems(1) have "\<forall>(d, m)\<in>set dms. \<forall>t. is_alive (kernel_client (base m t)) = is_alive (kernel_client t)
             \<and> connections (base m t) = connections t
             \<and> (condition (emit Sig_got_reply (base m t)) \<longleftrightarrow> condition t)"
      by simp
    from Cons.IH [OF this Cons.prems(2) a(1,2), of "remaining - int d" "now + int d"] a(3)
    obtain t' where
      "wait_exec base condition sg msg (map (\<lambda>(d, m). (d, Reply_received m)) dms)
           (remaining - int d) (now + int d) ?t
         = (Raised (TimeoutError msg), now + remaining, t')"
      "connections t' = remove1 Kernel_died (remove1 sg (connections t))"
      by auto
    with a dm False show ?thesis by (simp add: Let_def)
  qed
qed

text \<open>
  C4 (as amended). A wait for the reply to the outstanding call \<open>cid\<close> that starts with the
  kernel alive and the reply not in the inbox, during which only replies are handled that
  leave the kernel alive, the connections alone and \<open>cid\<close> out of the inbox: the method
  raises \<^verbatim>\<open>TimeoutError\<close> when the time given to the timer, \<^verbatim>\<open>timeout * 1000\<close> milliseconds
  for a timeout that is not negative, has passed, neither before nor after, with the
  signal connections as they were before the call. The message
  carries the reply waitlist as it was when the wait started, the id of the call in it:
  it is formatted before the wait.
\<close>

theorem wait_reply_timeout:
  assumes "is_alive (kernel_client s)" and "cid \<notin> set (reply_inbox s)"
    and "cid \<in> set (reply_waitlist s)" and "0 \<le> timeout"
    and "\<forall>(d, m)\<in>set dms. \<forall>t. is_alive (kernel_client (base m t)) = is_alive (kernel_client t)
             \<and> connections (base m t) = connections t
             \<and> (cid \<in> set (reply_inbox (base m t)) \<longleftrightarrow> cid \<in> set (reply_inbox t))"
  shows "\<exists>ids s'. wait_reply base cid cname timeout (map (\<lambda>(d, m). (d, Reply_received m)) dms) s
           = (Raised (TimeoutError (Waiting_for ids)), timeout * 1000, s')
         \<and> ids = reply_waitlist s \<and> cid \<in> set ids
         \<and> mset (connections s') = mset (connections s)"
proof -
  let ?c = "\<lambda>t. cid \<in> set (reply_inbox t)"
  let ?s = "connect Sig_got_reply (connect Kernel_died s)"
  have "\<forall>(d, m)\<in>set dms. \<forall>t. is_alive (kernel_client (base m t)) = is_alive (kernel_client t)
             \<and> connections (base m t) = connections t
             \<and> (?c (emit Sig_got_reply (base m t)) \<longleftrightarrow> ?c t)"
    using assms(5) by (simp add: emit_def effect_def)
  moreover have "\<And>t x. ?c (disconnect x t) = ?c t"
    by (simp add: disconnect_fields)
  moreover have "\<not> ?c ?s" "is_alive (kernel_client ?s)"
    using assms(1,2) by (simp_all add: connect_def)
  ultimately obtain t' where
    w: "wait_exec base ?c Sig_got_reply (Waiting_for (reply_waitlist s))
          (map (\<lambda>(d, m). (d, Reply_received m)) dms) (timeout * 1000) 0 ?s
        = (Raised (TimeoutError (Waiting_for (reply_waitlist s))), 0 + timeout * 1000, t')"
    and c: "connections t' = remove1 Kernel_died (remove1 Sig_got_reply (connections ?s))"
    using wait_exec_no_reply [of dms base ?c ?s Sig_got_reply "Waiting_for (reply_waitlist s)"
        "timeout * 1000" 0]
    by blast
  from c have "mset (connections t') = mset (connections s)"
    by (simp add: connect_def)
  moreover from w assms(1,2)
  have "wait_reply base cid cname timeout (map (\<lambda>(d, m). (d, Reply_received m)) dms) s
           = (Raised (TimeoutError (Waiting_for (reply_waitlist s))), timeout * 1000, t')"
    by (simp add: wait_reply_def wait_def connect_def)
  ultimately show ?thesis using assms(3) by blast
qed

theorem wait_reply_timeout_witness:
  "is_alive (kernel_client waiting0) \<and> ''c1'' \<notin> set (reply_inbox waiting0)
   \<and> ''c1'' \<in> set (reply_waitlist waiting0) \<and> (0::int) \<le> 5
   \<and> (\<exists>s'. wait_reply handle_reply ''c1'' ''get_value'' 5
              [(1000, Reply_received ''c2''), (7000, Reply_received ''c3'')] waiting0
           = (Raised (TimeoutError (Waiting_for [''c1'', ''c2''])), 5000, s')
         \<and> mset (connections s') = mset (connections waiting0))"
proof -
  have a: "is_alive (kernel_client waiting0)" "''c1'' \<notin> set (reply_inbox waiting0)"
    "''c1'' \<in> set (reply_waitlist waiting0)"
    by (simp_all add: example_defs)
  have w: "reply_waitlist waiting0 = [''c1'', ''c2'']"
    by (simp add: example_defs)
  have b: "\<forall>(d, m)\<in>set [(1000, ''c2''), (7000, ''c3'')].
             \<forall>t. is_alive (kernel_client (handle_reply m t)) = is_alive (kernel_client t)
             \<and> connections (handle_reply m t) = connections t
             \<and> (''c1'' \<in> set (reply_inbox (handle_reply m t)) \<longleftrightarrow> ''c1'' \<in> set (reply_inbox t))"
    by (simp add: handle_reply_def)
  have p: "(0::int) \<le> 5" by simp
  from wait_reply_timeout [OF a p b, of "''get_value''"] a w
  show ?thesis by auto
qed

text \<open>
  The claim as written fails: with the calls \<open>c1\<close> and \<open>c2\<close> outstanding, a wait of five
  seconds for \<open>c1\<close> during which the reply to \<open>c2\<close> arrives raises a timeout that names
  both, while \<open>c1\<close> alone is outstanding when the timer fires.
\<close>

theorem wait_reply_timeout_counterexample:
  "wait_reply handle_reply ''c1'' ''get_value'' 5 [(1000, Reply_received ''c2'')] waiting0
     = (Raised (TimeoutError (Waiting_for [''c1'', ''c2''])), 5000,
        waiting0\<lparr>reply_inbox := [''c2''], reply_waitlist := [''c1''],
                 effects := [Emitted Sig_got_reply]\<rparr>)"
  by (simp add: example_defs wait_reply_def wait_def connect_def disconnect_def
      handle_remote_call_reply_def handle_reply_def emit_def effect_def)

text \<open>
  C2. A wait of five seconds for the reply to \<open>c1\<close> on a live kernel, when the kernel dies
  after one second, before a reply and before the timer: the method does not end at the
  death. \<^verbatim>\<open>RuntimeError("Kernel is dead")\<close> is raised when the timer fires, at five seconds,
  the two signals disconnected by then; and the loop is still running after the death,
  since a reply that arrives a second later ends the wait with a normal return.
\<close>

theorem wait_reply_kernel_dies:
  "wait_reply handle_reply ''c1'' ''get_value'' 5 [(1000, Kernel_dies)] waiting0
     = (Raised (RuntimeError ''Kernel is dead''), 5000,
        waiting0\<lparr>kernel_client := client0\<lparr>is_alive := False\<rparr>\<rparr>)
   \<and> wait_reply handle_reply ''c1'' ''get_value'' 5
        [(1000, Kernel_dies), (1000, Reply_received ''c1'')] waiting0
     = (Returned (), 2000,
        waiting0\<lparr>kernel_client := client0\<lparr>is_alive := False\<rparr>,
                 reply_inbox := [''c1''], reply_waitlist := [''c2''],
                 effects := [Emitted Sig_got_reply]\<rparr>)"
  by (simp add: example_defs wait_reply_def wait_def connect_def disconnect_def
      handle_remote_call_reply_def handle_reply_def emit_def effect_def)

end
